theory Spec2Isabelle
  imports Main
begin

section \<open>The diagram graph (pygraphviz's AGraph, as cwlviewer.py uses it)\<close>

text \<open>
  \<^verbatim>\<open>cwlviewer.py\<close> builds one \<^verbatim>\<open>pgv.AGraph(directed=True, strict=False)\<close>. The model
  keeps what the calls of the source can observe or change: the graph attributes, the
  default node attributes, the nodes in insertion order, the attributes set on each node
  (a Python keyword dictionary, hence a map), the edges in insertion order (the graph is
  not strict, so an edge is appended at every call) and the named subgraphs with their
  own graph attributes and member nodes.
\<close>

type_synonym uri = string
type_synonym attr_map = "string \<rightharpoonup> string"

record subgraph =
  sg_graph_attr :: attr_map
  sg_nodes :: "string list"

record agraph =
  directed :: bool
  strict :: bool
  graph_attr :: attr_map
  node_attr :: attr_map
  nodes :: "string list"
  attrs :: "string \<Rightarrow> attr_map"
  edges :: "(string \<times> string) list"
  subgraphs :: "string \<rightharpoonup> subgraph"

text \<open>Appending a name to an ordered collection unless it is there already
  (\<^verbatim>\<open>agnode(handle, n, find)\<close>, and \<^verbatim>\<open>agnode(handle, n, create)\<close> on KeyError).\<close>

definition ins :: "string \<Rightarrow> string list \<Rightarrow> string list" where
  "ins n ns = (if n \<in> set ns then ns else ns @ [n])"

text \<open>
  Every attribute that pygraphviz sets on a node or on a subgraph goes through its
  \<^verbatim>\<open>agsafeset_label(g, obj, name, val, default)\<close>: when the attribute is \<^verbatim>\<open>label\<close> or
  \<^verbatim>\<open>xlabel\<close> and the value starts with \<^verbatim>\<open><\<close> and ends with \<^verbatim>\<open>>\<close>, the value is stored
  without these two characters (as an HTML-like string of Graphviz); any other value is
  stored as it is. An attribute value of the model is the string that is stored, which is
  what \<^verbatim>\<open>node.attr[name]\<close> reads back.
\<close>

definition agsafeset_label :: "string \<Rightarrow> string \<Rightarrow> string" where
  "agsafeset_label name val =
     (if val \<noteq> [] \<and> hd val = CHR ''<'' \<and> (name = ''label'' \<or> name = ''xlabel'')
         \<and> last val = CHR ''>''
      then butlast (tl val) else val)"

text \<open>The values that \<^verbatim>\<open>node.attr.update(**attr)\<close> stores for the keyword dictionary
  \<open>attr\<close>.\<close>

definition stored :: "attr_map \<Rightarrow> attr_map" where
  "stored attr = (\<lambda>name. map_option (agsafeset_label name) (attr name))"

text \<open>\<^verbatim>\<open>AGraph.add_node(n, **attr)\<close> on the root graph: find the node or create it, then
  \<^verbatim>\<open>node.attr.update(**attr)\<close>.\<close>

definition add_node :: "string \<Rightarrow> attr_map \<Rightarrow> agraph \<Rightarrow> agraph" where
  "add_node n attr g =
     g\<lparr>nodes := ins n (nodes g), attrs := (attrs g)(n := attrs g n ++ stored attr)\<rparr>"

text \<open>\<^verbatim>\<open>AGraph.add_edge(u, v)\<close>: each end that is not a node yet is added by
  \<^verbatim>\<open>self.add_node(u)\<close> with no attribute; then \<^verbatim>\<open>agedge(..., create)\<close> makes a new edge
  (no key, graph not strict).\<close>

definition add_edge :: "string \<Rightarrow> string \<Rightarrow> agraph \<Rightarrow> agraph" where
  "add_edge u v g =
     (let g1 = (if u \<in> set (nodes g) then g else add_node u Map.empty g);
          g2 = (if v \<in> set (nodes g1) then g1 else add_node v Map.empty g1)
      in g2\<lparr>edges := edges g2 @ [(u, v)]\<rparr>)"

text \<open>A subgraph is reached through the handle that \<^verbatim>\<open>agsubg(handle, name, create)\<close>
  returns: the subgraph of that name, made empty when there is none yet. The model reaches
  it by its name.\<close>

definition the_subgraph :: "agraph \<Rightarrow> string \<Rightarrow> subgraph" where
  "the_subgraph g name =
     (case subgraphs g name of
        Some sg \<Rightarrow> sg
      | None \<Rightarrow> \<lparr>sg_graph_attr = Map.empty, sg_nodes = []\<rparr>)"

text \<open>\<^verbatim>\<open>AGraph.add_subgraph(name=...)\<close>.\<close>

definition add_subgraph :: "string \<Rightarrow> agraph \<Rightarrow> agraph" where
  "add_subgraph name g = g\<lparr>subgraphs := (subgraphs g)(name \<mapsto> the_subgraph g name)\<rparr>"

text \<open>\<^verbatim>\<open>subgraph.graph_attr[k] = v\<close> on the subgraph handle, which stores the value with
  \<^verbatim>\<open>agsafeset_label\<close> too.\<close>

definition sub_graph_attr_set :: "string \<Rightarrow> string \<Rightarrow> string \<Rightarrow> agraph \<Rightarrow> agraph" where
  "sub_graph_attr_set name k v g =
     (let sg = the_subgraph g name
      in g\<lparr>subgraphs := (subgraphs g)(name \<mapsto>
            sg\<lparr>sg_graph_attr := (sg_graph_attr sg)(k \<mapsto> agsafeset_label k v)\<rparr>)\<rparr>)"

text \<open>\<^verbatim>\<open>subgraph.add_node(n, **attr)\<close>: the node is looked up in the subgraph and, when it
  is not a member, created there, which makes it a node of the root graph too (or takes the
  node of that name the root graph already has); the attributes of a node are shared by
  the root graph and every subgraph.\<close>

definition sub_add_node :: "string \<Rightarrow> string \<Rightarrow> attr_map \<Rightarrow> agraph \<Rightarrow> agraph" where
  "sub_add_node name n attr g =
     (let sg = the_subgraph g name
      in (add_node n attr g)\<lparr>subgraphs := (subgraphs g)(name \<mapsto> sg\<lparr>sg_nodes := ins n (sg_nodes sg)\<rparr>)\<rparr>)"

definition cluster_nodes :: "agraph \<Rightarrow> string \<Rightarrow> string list" where
  "cluster_nodes g name = sg_nodes (the_subgraph g name)"

section \<open>The fact graph and its result rows\<close>

text \<open>
  The four SPARQL texts under \<^verbatim>\<open>queries/\<close> and rdflib's query engine are taken as
  parameters: an \<open>rdf_graph\<close> is what \<^verbatim>\<open>self._rdf_graph.query(text, initBindings=
  {'root_graph': root})\<close> returns for each of the four texts, as the list of its rows.
  A row variable that the query left unbound reads as \<^verbatim>\<open>None\<close>; the two label
  variables are the ones the source tests for it.
\<close>

record root_row =
  workflow :: uri

record inner_edge_row =
  source_step :: uri
  source_label :: "string option"
  target_step :: uri
  target_label :: "string option"

record input_row =
  input :: uri
  step :: uri

record output_row =
  output_uri :: uri
  step :: uri

record rdf_graph =
  get_root :: "root_row list"
  get_inner_edges :: "uri \<Rightarrow> inner_edge_row list"
  get_input_edges :: "uri \<Rightarrow> input_row list"
  get_output_edges :: "uri \<Rightarrow> output_row list"

datatype error = IndexError | ExternalError string

section \<open>urlparse(...).fragment\<close>

text \<open>
  \<^verbatim>\<open>urllib.parse.urlparse(u).fragment\<close>: \<^verbatim>\<open>urlsplit\<close> removes the scheme and the network
  location, neither of which can hold a \<^verbatim>\<open>#\<close>, and then runs
  \<^verbatim>\<open>if '#' in url: url, fragment = url.split('#', 1)\<close>; the fragment is the empty string
  otherwise. Recent Python versions first drop ASCII tab, carriage return and line feed
  from the URL and strip leading control characters, and \<^verbatim>\<open>urlsplit\<close> raises
  \<^verbatim>\<open>ValueError\<close> on a malformed bracketed host; the model is of URIs without those
  characters and without such a host.
\<close>

definition fragment :: "string \<Rightarrow> string" where
  "fragment url =
     (if CHR ''#'' \<in> set url then tl (dropWhile (\<lambda>c. c \<noteq> CHR ''#'') url) else [])"

text \<open>The spec's wording of the same, for comparison: the substring after the last
  \<^verbatim>\<open>#\<close>, and the empty string for a URI that has none.\<close>

definition after_last_hash :: "string \<Rightarrow> string" where
  "after_last_hash url =
     (if CHR ''#'' \<in> set url then rev (takeWhile (\<lambda>c. c \<noteq> CHR ''#'') (rev url)) else [])"

text \<open>
  The node identifiers are URIs. A URI (RFC 3986) is made of letters, digits, the marks
  \<^verbatim>\<open>-._~\<close>, the delimiters \<^verbatim>\<open>:/?#[]@!$&'()*+,;=\<close> and \<^verbatim>\<open>%\<close>, and \<^verbatim>\<open>#\<close> occurs in it at
  most once, in front of the fragment. Square brackets occur only around an IP literal in
  the host, which \<^verbatim>\<open>urlsplit\<close> validates; \<open>is_uri\<close> leaves these URIs out. It asks for
  nothing else, so it holds of every URI that has no IP literal as its host.
\<close>

definition uri_chars :: "char list" where
  "uri_chars =
     ''abcdefghijklmnopqrstuvwxyzABCDEFGHIJKLMNOPQRSTUVWXYZ0123456789-._~:/?#@!$&()*+,;=%''
     @ [CHR 0x27]"

definition is_uri :: "string \<Rightarrow> bool" where
  "is_uri u \<longleftrightarrow> list_all (\<lambda>c. c \<in> set uri_chars) u \<and> count_list u CHR ''#'' \<le> 1"

section \<open>CWLViewer\<close>

record CWLViewer =
  filename :: string
  dot_graph :: agraph
  rdf_graph :: rdf_graph
  root_graph_uri :: uri

text \<open>\<^verbatim>\<open>_init_dot_graph\<close>. None of the four attributes is a label, so each value is stored
  as it is written.\<close>

definition init_dot_graph :: agraph where
  "init_dot_graph =
     \<lparr>directed = True, strict = False,
      graph_attr = [''bgcolor'' \<mapsto> ''#eeeeee'', ''labeljust'' \<mapsto> ''left'',
                    ''clusterrank'' \<mapsto> ''local''],
      node_attr = [''shape'' \<mapsto> ''record''],
      nodes = [], attrs = (\<lambda>n. Map.empty), edges = [], subgraphs = Map.empty\<rparr>"

text \<open>\<^verbatim>\<open>get_root_graph_uri\<close>: \<^verbatim>\<open>list(query(...))[0]\<close> raises IndexError on the empty
  list.\<close>

definition get_root_graph_uri :: "rdf_graph \<Rightarrow> error + uri" where
  "get_root_graph_uri rdf =
     (case get_root rdf of [] \<Rightarrow> Inl IndexError | root # _ \<Rightarrow> Inr (workflow root))"

subsection \<open>The inner-edge extractor\<close>

definition step_attr :: "string \<Rightarrow> attr_map" where
  "step_attr l = [''fillcolor'' \<mapsto> ''lightgoldenrodyellow'', ''style'' \<mapsto> ''filled'',
                  ''label'' \<mapsto> l]"

text \<open>Lines 50 to 57 of the loop body: the source label and the source node.\<close>

definition inner_source_node :: "inner_edge_row \<Rightarrow> agraph \<Rightarrow> agraph" where
  "inner_source_node r g =
     (let source_label_v = (case source_label r of Some l \<Rightarrow> l
                                                | None \<Rightarrow> fragment (source_step r))
      in add_node (source_step r) (step_attr source_label_v) g)"

text \<open>Lines 58 to 65: the target label and the target node.\<close>

definition inner_target_node :: "inner_edge_row \<Rightarrow> agraph \<Rightarrow> agraph" where
  "inner_target_node r g =
     (let target_label_v = (case target_label r of Some l \<Rightarrow> l
                                                | None \<Rightarrow> fragment (target_step r))
      in add_node (target_step r) (step_attr target_label_v) g)"

definition inner_edge_body :: "inner_edge_row \<Rightarrow> agraph \<Rightarrow> agraph" where
  "inner_edge_body r g =
     add_edge (source_step r) (target_step r) (inner_target_node r (inner_source_node r g))"

definition set_inner_edges :: "rdf_graph \<Rightarrow> uri \<Rightarrow> agraph \<Rightarrow> agraph" where
  "set_inner_edges rdf root g = fold inner_edge_body (get_inner_edges rdf root) g"

subsection \<open>The input-edge and output-edge extractors\<close>

definition boundary_attr :: "string \<Rightarrow> attr_map" where
  "boundary_attr l = [''fillcolor'' \<mapsto> ''#94DDF4'', ''style'' \<mapsto> ''filled'', ''label'' \<mapsto> l]"

definition inputs_subgraph :: "agraph \<Rightarrow> agraph" where
  "inputs_subgraph g =
     sub_graph_attr_set ''cluster_inputs'' ''label'' ''Workflow Inputs''
       (sub_graph_attr_set ''cluster_inputs'' ''style'' ''dashed''
         (sub_graph_attr_set ''cluster_inputs'' ''rank'' ''same''
           (add_subgraph ''cluster_inputs'' g)))"

definition input_edge_body :: "input_row \<Rightarrow> agraph \<Rightarrow> agraph" where
  "input_edge_body r g =
     add_edge (input r) (input_row.step r)
       (sub_add_node ''cluster_inputs'' (input r) (boundary_attr (fragment (input r))) g)"

definition set_input_edges :: "rdf_graph \<Rightarrow> uri \<Rightarrow> agraph \<Rightarrow> agraph" where
  "set_input_edges rdf root g =
     fold input_edge_body (get_input_edges rdf root) (inputs_subgraph g)"

definition outputs_graph :: "agraph \<Rightarrow> agraph" where
  "outputs_graph g =
     sub_graph_attr_set ''cluster_outputs'' ''labelloc'' ''b''
       (sub_graph_attr_set ''cluster_outputs'' ''label'' ''Workflow Outputs''
         (sub_graph_attr_set ''cluster_outputs'' ''style'' ''dashed''
           (sub_graph_attr_set ''cluster_outputs'' ''rank'' ''same''
             (add_subgraph ''cluster_outputs'' g))))"

definition output_edge_body :: "output_row \<Rightarrow> agraph \<Rightarrow> agraph" where
  "output_edge_body r g =
     add_edge (output_row.step r) (output_uri r)
       (sub_add_node ''cluster_outputs'' (output_uri r) (boundary_attr (fragment (output_uri r))) g)"

definition set_output_edges :: "rdf_graph \<Rightarrow> uri \<Rightarrow> agraph \<Rightarrow> agraph" where
  "set_output_edges rdf root g =
     fold output_edge_body (get_output_edges rdf root) (outputs_graph g)"

subsection \<open>Construction\<close>

text \<open>
  \<^verbatim>\<open>__init__\<close>. The conversion by cwltool and the parse by rdflib
  (\<^verbatim>\<open>_load_cwl_graph\<close>) are the parameter \<open>load_cwl_graph\<close>, which returns the fact graph or
  the exception it raised. An exception of any step leaves no viewer object.
\<close>

definition CWLViewer_init :: "(string \<Rightarrow> error + rdf_graph) \<Rightarrow> string \<Rightarrow> error + CWLViewer" where
  "CWLViewer_init load_cwl_graph fname =
     (let g0 = init_dot_graph in
      case load_cwl_graph fname of
        Inl e \<Rightarrow> Inl e
      | Inr rdf \<Rightarrow>
          (case get_root_graph_uri rdf of
             Inl e \<Rightarrow> Inl e
           | Inr root \<Rightarrow>
               (let g1 = set_inner_edges rdf root g0;
                    g2 = set_input_edges rdf root g1;
                    g3 = set_output_edges rdf root g2
                in Inr \<lparr>filename = fname, dot_graph = g3, rdf_graph = rdf,
                        root_graph_uri = root\<rparr>)))"

subsection \<open>Text export\<close>

text \<open>
  \<^verbatim>\<open>dot\<close> returns \<^verbatim>\<open>self._dot_graph.to_string()\<close>. The serializer is pygraphviz's
  (Graphviz's \<^verbatim>\<open>agwrite\<close> into a temporary file); it is the parameter \<open>to_string\<close>,
  which returns the text and the graph as the call leaves it.
\<close>

definition dot :: "(agraph \<Rightarrow> string \<times> agraph) \<Rightarrow> CWLViewer \<Rightarrow> string \<times> CWLViewer" where
  "dot to_string self =
     (let (text, g) = to_string (dot_graph self) in (text, self\<lparr>dot_graph := g\<rparr>))"

text \<open>\<open>n\<close> calls of \<^verbatim>\<open>dot\<close> in a row: the texts returned, in order, and the viewer
  after the last call.\<close>

fun dot_calls :: "(agraph \<Rightarrow> string \<times> agraph) \<Rightarrow> nat \<Rightarrow> CWLViewer \<Rightarrow> string list \<times> CWLViewer" where
  "dot_calls to_string 0 self = ([], self)"
| "dot_calls to_string (Suc n) self =
     (let (text, self1) = dot to_string self;
          (texts, self2) = dot_calls to_string n self1
      in (text # texts, self2))"

section \<open>Notions used in the statements\<close>

text \<open>The graph after the three extraction passes of \<^verbatim>\<open>__init__\<close>, for a fact graph and
  a root.\<close>

abbreviation extracted :: "rdf_graph \<Rightarrow> uri \<Rightarrow> agraph" where
  "extracted rdf root \<equiv>
     set_output_edges rdf root (set_input_edges rdf root (set_inner_edges rdf root init_dot_graph))"

text \<open>The style tags of the spec, as the attributes the source gives: an internal step is
  filled with lightgoldenrodyellow; an input and an output are both filled with #94DDF4,
  and differ by their cluster only.\<close>

definition internal_step_styled :: "agraph \<Rightarrow> string \<Rightarrow> bool" where
  "internal_step_styled g n \<longleftrightarrow>
     attrs g n ''fillcolor'' = Some ''lightgoldenrodyellow'' \<and> attrs g n ''style'' = Some ''filled''"

definition boundary_styled :: "agraph \<Rightarrow> string \<Rightarrow> bool" where
  "boundary_styled g n \<longleftrightarrow>
     attrs g n ''fillcolor'' = Some ''#94DDF4'' \<and> attrs g n ''style'' = Some ''filled''"

text \<open>The nodes, the edges and the node attributes that the rows of each query stand for.\<close>

definition inner_nodes :: "inner_edge_row list \<Rightarrow> string list" where
  "inner_nodes rows = concat (map (\<lambda>r. [source_step r, target_step r]) rows)"

definition inner_es :: "inner_edge_row list \<Rightarrow> (string \<times> string) list" where
  "inner_es rows = map (\<lambda>r. (source_step r, target_step r)) rows"

definition input_nodes :: "input_row list \<Rightarrow> string list" where
  "input_nodes rows = concat (map (\<lambda>r. [input r, input_row.step r]) rows)"

definition input_es :: "input_row list \<Rightarrow> (string \<times> string) list" where
  "input_es rows = map (\<lambda>r. (input r, input_row.step r)) rows"

definition output_nodes :: "output_row list \<Rightarrow> string list" where
  "output_nodes rows = concat (map (\<lambda>r. [output_uri r, output_row.step r]) rows)"

definition output_es :: "output_row list \<Rightarrow> (string \<times> string) list" where
  "output_es rows = map (\<lambda>r. (output_row.step r, output_uri r)) rows"

definition label_of :: "string option \<Rightarrow> uri \<Rightarrow> string" where
  "label_of declared u = (case declared of Some l \<Rightarrow> l | None \<Rightarrow> fragment u)"

fun inner_delta :: "inner_edge_row list \<Rightarrow> string \<Rightarrow> attr_map" where
  "inner_delta [] n = Map.empty"
| "inner_delta (r # rows) n =
     ((if n = source_step r
       then step_attr (agsafeset_label ''label'' (label_of (source_label r) (source_step r)))
       else Map.empty)
      ++ (if n = target_step r
          then step_attr (agsafeset_label ''label'' (label_of (target_label r) (target_step r)))
          else Map.empty))
     ++ inner_delta rows n"

definition boundary_delta :: "string list \<Rightarrow> string \<Rightarrow> attr_map" where
  "boundary_delta ns n =
     (if n \<in> set ns then boundary_attr (agsafeset_label ''label'' (fragment n)) else Map.empty)"

section \<open>Example fact graphs\<close>

text \<open>Two labelled steps S1 and S2 with an edge between them, an input I of S1 and an
  output O of S2, under the root w; nothing under any other root.\<close>

definition ex_two_steps :: rdf_graph where
  "ex_two_steps =
     \<lparr>get_root = [\<lparr>workflow = ''w''\<rparr>],
      get_inner_edges = (\<lambda>root. if root = ''w'' then
         [\<lparr>source_step = ''w#S1'', source_label = Some ''Step A'',
           target_step = ''w#S2'', target_label = Some ''Step B''\<rparr>] else []),
      get_input_edges = (\<lambda>root. if root = ''w'' then
         [\<lparr>input = ''w#I'', step = ''w#S1''\<rparr>] else []),
      get_output_edges = (\<lambda>root. if root = ''w'' then
         [\<lparr>output_uri = ''w#O'', step = ''w#S2''\<rparr>] else [])\<rparr>"

text \<open>One step S with an input I and an output O: no inner edge.\<close>

definition ex_single_step :: rdf_graph where
  "ex_single_step =
     \<lparr>get_root = [\<lparr>workflow = ''w''\<rparr>],
      get_inner_edges = (\<lambda>root. []),
      get_input_edges = (\<lambda>root. [\<lparr>input = ''w#I'', step = ''w#S''\<rparr>]),
      get_output_edges = (\<lambda>root. [\<lparr>output_uri = ''w#O'', step = ''w#S''\<rparr>])\<rparr>"

text \<open>The same URI X as the input of an input row and the output of an output row.\<close>

definition ex_overlap :: rdf_graph where
  "ex_overlap =
     \<lparr>get_root = [\<lparr>workflow = ''w''\<rparr>],
      get_inner_edges = (\<lambda>root. []),
      get_input_edges = (\<lambda>root. [\<lparr>input = ''w#X'', step = ''w#S''\<rparr>]),
      get_output_edges = (\<lambda>root. [\<lparr>output_uri = ''w#X'', step = ''w#S''\<rparr>])\<rparr>"

text \<open>A step whose declared label is the empty string.\<close>

definition ex_empty_label :: rdf_graph where
  "ex_empty_label =
     \<lparr>get_root = [\<lparr>workflow = ''w''\<rparr>],
      get_inner_edges = (\<lambda>root.
         [\<lparr>source_step = ''w#step1'', source_label = Some [],
           target_step = ''w#step2'', target_label = None\<rparr>]),
      get_input_edges = (\<lambda>root. []),
      get_output_edges = (\<lambda>root. [])\<rparr>"

text \<open>A step whose declared label is written as markup, between \<^verbatim>\<open><\<close> and \<^verbatim>\<open>>\<close>.\<close>

definition ex_html_label :: rdf_graph where
  "ex_html_label =
     \<lparr>get_root = [\<lparr>workflow = ''w''\<rparr>],
      get_inner_edges = (\<lambda>root.
         [\<lparr>source_step = ''w#step1'', source_label = Some ''<b>x</b>'',
           target_step = ''w#step2'', target_label = None\<rparr>]),
      get_input_edges = (\<lambda>root. []),
      get_output_edges = (\<lambda>root. [])\<rparr>"

text \<open>An input row whose step is the input of another input row.\<close>

definition ex_chain :: rdf_graph where
  "ex_chain =
     \<lparr>get_root = [\<lparr>workflow = ''w''\<rparr>],
      get_inner_edges = (\<lambda>root. []),
      get_input_edges = (\<lambda>root. [\<lparr>input = ''w#a'', step = ''w#b''\<rparr>,
                                  \<lparr>input = ''w#b'', step = ''w#c''\<rparr>]),
      get_output_edges = (\<lambda>root. [])\<rparr>"

text \<open>A fact graph on which the root query has no row, and one on which it has two.\<close>

definition ex_no_root :: rdf_graph where
  "ex_no_root =
     \<lparr>get_root = [], get_inner_edges = (\<lambda>root. []), get_input_edges = (\<lambda>root. []),
      get_output_edges = (\<lambda>root. [])\<rparr>"

definition ex_two_roots :: rdf_graph where
  "ex_two_roots =
     \<lparr>get_root = [\<lparr>workflow = ''w''\<rparr>, \<lparr>workflow = ''v''\<rparr>],
      get_inner_edges = (\<lambda>root. []), get_input_edges = (\<lambda>root. []),
      get_output_edges = (\<lambda>root. [])\<rparr>"

section \<open>The graph operations and the extractors in closed form\<close>

subsection \<open>Ordered insertion\<close>

lemma set_ins: "set (ins n ns) = insert n (set ns)"
  by (auto simp: ins_def)

lemma ins_member: "n \<in> set ns \<Longrightarrow> ins n ns = ns"
  by (simp add: ins_def)

lemma set_fold_ins: "set (fold ins xs ns) = set ns \<union> set xs"
  by (induction xs arbitrary: ns) (auto simp: set_ins)

lemma fold_ins_subset: "set xs \<subseteq> set ns \<Longrightarrow> fold ins xs ns = ns"
  by (induction xs arbitrary: ns) (simp_all add: ins_member)

lemma fold_ins_twice: "fold ins xs (fold ins xs ns) = fold ins xs ns"
  by (rule fold_ins_subset) (simp add: set_fold_ins)

subsection \<open>Maps\<close>

lemma map_add_same: "(m ++ d) ++ d = m ++ (d :: attr_map)"
  by (rule ext) (simp add: map_add_def split: option.split)

subsection \<open>Stored attribute values\<close>

lemma agsafeset_label_other:
  "name \<noteq> ''label'' \<Longrightarrow> name \<noteq> ''xlabel'' \<Longrightarrow> agsafeset_label name val = val"
  by (simp add: agsafeset_label_def)

lemma agsafeset_label_plain:
  "val = [] \<or> hd val \<noteq> CHR ''<'' \<or> last val \<noteq> CHR ''>'' \<Longrightarrow> agsafeset_label name val = val"
  by (auto simp: agsafeset_label_def)

lemma agsafeset_label_html:
  "agsafeset_label ''label'' (CHR ''<'' # val @ [CHR ''>'']) = val"
  by (simp add: agsafeset_label_def butlast_append)

lemma stored_empty: "stored Map.empty = Map.empty"
  by (simp add: stored_def)

lemma stored_step_attr: "stored (step_attr l) = step_attr (agsafeset_label ''label'' l)"
  by (rule ext) (simp add: stored_def step_attr_def agsafeset_label_other)

lemma stored_boundary_attr:
  "stored (boundary_attr l) = boundary_attr (agsafeset_label ''label'' l)"
  by (rule ext) (simp add: stored_def boundary_attr_def agsafeset_label_other)

subsection \<open>Fragments of URIs\<close>

lemma fragment_split: "CHR ''#'' \<notin> set pre \<Longrightarrow> fragment (pre @ CHR ''#'' # frag) = frag"
  by (induction pre) (auto simp: fragment_def)

lemma fragment_no_hash: "CHR ''#'' \<notin> set u \<Longrightarrow> fragment u = []"
  by (simp add: fragment_def)

lemma set_fragment: "set (fragment u) \<subseteq> set u"
proof (cases "CHR ''#'' \<in> set u")
  case True
  then obtain pre suf where u: "u = pre @ CHR ''#'' # suf" "CHR ''#'' \<notin> set pre"
    by (auto dest: split_list_first)
  then show ?thesis
    by (auto simp: fragment_split)
next
  case False
  then show ?thesis
    by (simp add: fragment_def)
qed

lemma fragment_after_last_hash:
  assumes "count_list u CHR ''#'' \<le> 1"
  shows "fragment u = after_last_hash u"
proof (cases "CHR ''#'' \<in> set u")
  case True
  then obtain pre suf where u: "u = pre @ CHR ''#'' # suf" "CHR ''#'' \<notin> set pre"
    by (auto dest: split_list_first)
  with assms have "count_list suf CHR ''#'' = 0"
    by simp
  then have suf: "CHR ''#'' \<notin> set suf"
    by (simp add: count_list_0_iff)
  then have "takeWhile (\<lambda>c. c \<noteq> CHR ''#'') (rev suf @ CHR ''#'' # rev pre) = rev suf"
    by (subst takeWhile_append2) auto
  with u show ?thesis
    by (simp add: fragment_split after_last_hash_def)
next
  case False
  then show ?thesis
    by (simp add: fragment_def after_last_hash_def)
qed

lemma uri_fragment_stored:
  assumes "is_uri u"
  shows "agsafeset_label name (fragment u) = fragment u"
proof (cases "fragment u")
  case Nil
  then show ?thesis
    by (simp add: agsafeset_label_def)
next
  case (Cons c cs)
  then have "c \<in> set u"
    using set_fragment [of u] by auto
  with assms have "c \<in> set uri_chars"
    by (simp add: is_uri_def list_all_iff)
  then have "c \<noteq> CHR ''<''"
    by (auto simp: uri_chars_def)
  with Cons show ?thesis
    by (simp add: agsafeset_label_def)
qed

lemma uri_fragment_label:
  "is_uri u \<Longrightarrow> agsafeset_label ''label'' (fragment u) = after_last_hash u"
  using uri_fragment_stored [of u "''label''"] fragment_after_last_hash [of u]
  by (simp add: is_uri_def)

subsection \<open>The graph operations, field by field\<close>

lemma add_node_eq:
  "add_node n attr g =
     g\<lparr>nodes := ins n (nodes g), attrs := (attrs g)(n := attrs g n ++ stored attr)\<rparr>"
  by (simp add: add_node_def)

lemma add_edge_eq:
  "add_edge u v g = g\<lparr>nodes := ins v (ins u (nodes g)), edges := edges g @ [(u, v)]\<rparr>"
  by (simp add: add_edge_def add_node_def stored_empty Let_def ins_member)

lemma sub_add_node_eq:
  "sub_add_node name n attr g =
     g\<lparr>nodes := ins n (nodes g), attrs := (attrs g)(n := attrs g n ++ stored attr),
       subgraphs := (subgraphs g)(name \<mapsto>
          (the_subgraph g name)\<lparr>sg_nodes := ins n (sg_nodes (the_subgraph g name))\<rparr>)\<rparr>"
  by (simp add: sub_add_node_def add_node_def Let_def)

lemma inner_edge_body_eq:
  "inner_edge_body r g =
     g\<lparr>nodes := ins (target_step r) (ins (source_step r) (nodes g)),
       attrs := (\<lambda>n. attrs g n ++ inner_delta [r] n),
       edges := edges g @ [(source_step r, target_step r)]\<rparr>"
  by (auto simp: inner_edge_body_def inner_source_node_def inner_target_node_def add_node_eq
      add_edge_eq stored_step_attr label_of_def ins_member set_ins fun_eq_iff
      split: option.splits)

lemma input_edge_body_eq:
  "input_edge_body r g =
     g\<lparr>nodes := ins (input_row.step r) (ins (input r) (nodes g)),
       attrs := (\<lambda>n. attrs g n ++ boundary_delta [input r] n),
       edges := edges g @ [(input r, input_row.step r)],
       subgraphs := (subgraphs g)(''cluster_inputs'' \<mapsto>
          (the_subgraph g ''cluster_inputs'')
            \<lparr>sg_nodes := ins (input r) (sg_nodes (the_subgraph g ''cluster_inputs''))\<rparr>)\<rparr>"
  by (auto simp: input_edge_body_def sub_add_node_eq add_edge_eq stored_boundary_attr
      boundary_delta_def ins_member set_ins fun_eq_iff)

lemma output_edge_body_eq:
  "output_edge_body r g =
     g\<lparr>nodes := ins (output_row.step r) (ins (output_uri r) (nodes g)),
       attrs := (\<lambda>n. attrs g n ++ boundary_delta [output_uri r] n),
       edges := edges g @ [(output_row.step r, output_uri r)],
       subgraphs := (subgraphs g)(''cluster_outputs'' \<mapsto>
          (the_subgraph g ''cluster_outputs'')
            \<lparr>sg_nodes := ins (output_uri r) (sg_nodes (the_subgraph g ''cluster_outputs''))\<rparr>)\<rparr>"
  by (auto simp: output_edge_body_def sub_add_node_eq add_edge_eq stored_boundary_attr
      boundary_delta_def ins_member set_ins fun_eq_iff)


subsection \<open>The loops in closed form\<close>

lemma map_add_idem: "m ++ m = (m :: attr_map)"
  by (rule ext) (simp add: map_add_def split: option.split)

lemma boundary_delta_Cons:
  "boundary_delta (x # xs) n = boundary_delta [x] n ++ boundary_delta xs n"
  by (simp add: boundary_delta_def map_add_idem)

lemma fold_inner_edge_body:
  "fold inner_edge_body rows g =
     g\<lparr>nodes := fold ins (inner_nodes rows) (nodes g),
       attrs := (\<lambda>n. attrs g n ++ inner_delta rows n),
       edges := edges g @ inner_es rows\<rparr>"
proof (induction rows arbitrary: g)
  case Nil
  show ?case by (simp add: inner_nodes_def inner_es_def)
next
  case (Cons r rows)
  have "fold inner_edge_body (r # rows) g = fold inner_edge_body rows (inner_edge_body r g)"
    by simp
  also have "\<dots> = (inner_edge_body r g)
       \<lparr>nodes := fold ins (inner_nodes rows) (nodes (inner_edge_body r g)),
        attrs := (\<lambda>n. attrs (inner_edge_body r g) n ++ inner_delta rows n),
        edges := edges (inner_edge_body r g) @ inner_es rows\<rparr>"
    by (rule Cons.IH)
  also have "\<dots> = g\<lparr>nodes := fold ins (inner_nodes (r # rows)) (nodes g),
       attrs := (\<lambda>n. attrs g n ++ inner_delta (r # rows) n),
       edges := edges g @ inner_es (r # rows)\<rparr>"
    by (simp add: inner_edge_body_eq inner_nodes_def inner_es_def)
  finally show ?case .
qed

lemma fold_input_edge_body:
  "subgraphs g ''cluster_inputs'' = Some sg \<Longrightarrow>
   fold input_edge_body rows g =
     g\<lparr>nodes := fold ins (input_nodes rows) (nodes g),
       attrs := (\<lambda>n. attrs g n ++ boundary_delta (map input rows) n),
       edges := edges g @ input_es rows,
       subgraphs := (subgraphs g)(''cluster_inputs'' \<mapsto>
          sg\<lparr>sg_nodes := fold ins (map input rows) (sg_nodes sg)\<rparr>)\<rparr>"
proof (induction rows arbitrary: g sg)
  case Nil
  then show ?case
    by (simp add: input_nodes_def input_es_def boundary_delta_def map_upd_triv)
next
  case (Cons r rows)
  have "fold input_edge_body (r # rows) g = fold input_edge_body rows (input_edge_body r g)"
    by simp
  also have "\<dots> = (input_edge_body r g)
       \<lparr>nodes := fold ins (input_nodes rows) (nodes (input_edge_body r g)),
        attrs := (\<lambda>n. attrs (input_edge_body r g) n ++ boundary_delta (map input rows) n),
        edges := edges (input_edge_body r g) @ input_es rows,
        subgraphs := (subgraphs (input_edge_body r g))(''cluster_inputs'' \<mapsto>
          (sg\<lparr>sg_nodes := ins (input r) (sg_nodes sg)\<rparr>)
            \<lparr>sg_nodes := fold ins (map input rows) (sg_nodes (sg\<lparr>sg_nodes := ins (input r) (sg_nodes sg)\<rparr>))\<rparr>)\<rparr>"
    by (rule Cons.IH) (simp add: input_edge_body_eq the_subgraph_def Cons.prems)
  also have "\<dots> = g\<lparr>nodes := fold ins (input_nodes (r # rows)) (nodes g),
       attrs := (\<lambda>n. attrs g n ++ boundary_delta (map input (r # rows)) n),
       edges := edges g @ input_es (r # rows),
       subgraphs := (subgraphs g)(''cluster_inputs'' \<mapsto>
          sg\<lparr>sg_nodes := fold ins (map input (r # rows)) (sg_nodes sg)\<rparr>)\<rparr>"
    by (simp add: input_edge_body_eq input_nodes_def input_es_def
        boundary_delta_Cons [of "input r" "map input rows"])
  finally show ?case .
qed


lemma fold_output_edge_body:
  "subgraphs g ''cluster_outputs'' = Some sg \<Longrightarrow>
   fold output_edge_body rows g =
     g\<lparr>nodes := fold ins (output_nodes rows) (nodes g),
       attrs := (\<lambda>n. attrs g n ++ boundary_delta (map output_uri rows) n),
       edges := edges g @ output_es rows,
       subgraphs := (subgraphs g)(''cluster_outputs'' \<mapsto>
          sg\<lparr>sg_nodes := fold ins (map output_uri rows) (sg_nodes sg)\<rparr>)\<rparr>"
proof (induction rows arbitrary: g sg)
  case Nil
  then show ?case
    by (simp add: output_nodes_def output_es_def boundary_delta_def map_upd_triv)
next
  case (Cons r rows)
  have "fold output_edge_body (r # rows) g = fold output_edge_body rows (output_edge_body r g)"
    by simp
  also have "\<dots> = (output_edge_body r g)
       \<lparr>nodes := fold ins (output_nodes rows) (nodes (output_edge_body r g)),
        attrs := (\<lambda>n. attrs (output_edge_body r g) n ++ boundary_delta (map output_uri rows) n),
        edges := edges (output_edge_body r g) @ output_es rows,
        subgraphs := (subgraphs (output_edge_body r g))(''cluster_outputs'' \<mapsto>
          (sg\<lparr>sg_nodes := ins (output_uri r) (sg_nodes sg)\<rparr>)
            \<lparr>sg_nodes := fold ins (map output_uri rows)
                (sg_nodes (sg\<lparr>sg_nodes := ins (output_uri r) (sg_nodes sg)\<rparr>))\<rparr>)\<rparr>"
    by (rule Cons.IH) (simp add: output_edge_body_eq the_subgraph_def Cons.prems)
  also have "\<dots> = g\<lparr>nodes := fold ins (output_nodes (r # rows)) (nodes g),
       attrs := (\<lambda>n. attrs g n ++ boundary_delta (map output_uri (r # rows)) n),
       edges := edges g @ output_es (r # rows),
       subgraphs := (subgraphs g)(''cluster_outputs'' \<mapsto>
          sg\<lparr>sg_nodes := fold ins (map output_uri (r # rows)) (sg_nodes sg)\<rparr>)\<rparr>"
    by (simp add: output_edge_body_eq output_nodes_def output_es_def
        boundary_delta_Cons [of "output_uri r" "map output_uri rows"])
  finally show ?case .
qed

subsection \<open>The extractors in closed form\<close>

lemma set_inner_edges_eq:
  "set_inner_edges rdf root g =
     g\<lparr>nodes := fold ins (inner_nodes (get_inner_edges rdf root)) (nodes g),
       attrs := (\<lambda>n. attrs g n ++ inner_delta (get_inner_edges rdf root) n),
       edges := edges g @ inner_es (get_inner_edges rdf root)\<rparr>"
  by (simp add: set_inner_edges_def fold_inner_edge_body)

lemma inputs_subgraph_eq:
  "inputs_subgraph g =
     g\<lparr>subgraphs := (subgraphs g)(''cluster_inputs'' \<mapsto>
         (the_subgraph g ''cluster_inputs'')
           \<lparr>sg_graph_attr := (sg_graph_attr (the_subgraph g ''cluster_inputs''))
              (''rank'' \<mapsto> ''same'', ''style'' \<mapsto> ''dashed'', ''label'' \<mapsto> ''Workflow Inputs'')\<rparr>)\<rparr>"
  by (simp add: inputs_subgraph_def sub_graph_attr_set_def add_subgraph_def the_subgraph_def
      agsafeset_label_def Let_def split: option.split)

lemma set_input_edges_eq:
  "set_input_edges rdf root g =
     g\<lparr>nodes := fold ins (input_nodes (get_input_edges rdf root)) (nodes g),
       attrs := (\<lambda>n. attrs g n ++ boundary_delta (map input (get_input_edges rdf root)) n),
       edges := edges g @ input_es (get_input_edges rdf root),
       subgraphs := (subgraphs g)(''cluster_inputs'' \<mapsto>
         (the_subgraph g ''cluster_inputs'')
           \<lparr>sg_graph_attr := (sg_graph_attr (the_subgraph g ''cluster_inputs''))
              (''rank'' \<mapsto> ''same'', ''style'' \<mapsto> ''dashed'', ''label'' \<mapsto> ''Workflow Inputs''),
            sg_nodes := fold ins (map input (get_input_edges rdf root))
              (sg_nodes (the_subgraph g ''cluster_inputs''))\<rparr>)\<rparr>"
proof -
  have "subgraphs (inputs_subgraph g) ''cluster_inputs'' =
      Some ((the_subgraph g ''cluster_inputs'')
           \<lparr>sg_graph_attr := (sg_graph_attr (the_subgraph g ''cluster_inputs''))
              (''rank'' \<mapsto> ''same'', ''style'' \<mapsto> ''dashed'', ''label'' \<mapsto> ''Workflow Inputs'')\<rparr>)"
    by (simp add: inputs_subgraph_eq)
  from fold_input_edge_body [OF this, of "get_input_edges rdf root"]
  show ?thesis
    by (simp add: set_input_edges_def inputs_subgraph_eq)
qed

lemma outputs_graph_eq:
  "outputs_graph g =
     g\<lparr>subgraphs := (subgraphs g)(''cluster_outputs'' \<mapsto>
         (the_subgraph g ''cluster_outputs'')
           \<lparr>sg_graph_attr := (sg_graph_attr (the_subgraph g ''cluster_outputs''))
              (''rank'' \<mapsto> ''same'', ''style'' \<mapsto> ''dashed'', ''label'' \<mapsto> ''Workflow Outputs'', ''labelloc'' \<mapsto> ''b'')\<rparr>)\<rparr>"
  by (simp add: outputs_graph_def sub_graph_attr_set_def add_subgraph_def the_subgraph_def
      agsafeset_label_def Let_def split: option.split)

lemma set_output_edges_eq:
  "set_output_edges rdf root g =
     g\<lparr>nodes := fold ins (output_nodes (get_output_edges rdf root)) (nodes g),
       attrs := (\<lambda>n. attrs g n ++ boundary_delta (map output_uri (get_output_edges rdf root)) n),
       edges := edges g @ output_es (get_output_edges rdf root),
       subgraphs := (subgraphs g)(''cluster_outputs'' \<mapsto>
         (the_subgraph g ''cluster_outputs'')
           \<lparr>sg_graph_attr := (sg_graph_attr (the_subgraph g ''cluster_outputs''))
              (''rank'' \<mapsto> ''same'', ''style'' \<mapsto> ''dashed'', ''label'' \<mapsto> ''Workflow Outputs'', ''labelloc'' \<mapsto> ''b''),
            sg_nodes := fold ins (map output_uri (get_output_edges rdf root))
              (sg_nodes (the_subgraph g ''cluster_outputs''))\<rparr>)\<rparr>"
proof -
  have "subgraphs (outputs_graph g) ''cluster_outputs'' =
      Some ((the_subgraph g ''cluster_outputs'')
           \<lparr>sg_graph_attr := (sg_graph_attr (the_subgraph g ''cluster_outputs''))
              (''rank'' \<mapsto> ''same'', ''style'' \<mapsto> ''dashed'', ''label'' \<mapsto> ''Workflow Outputs'', ''labelloc'' \<mapsto> ''b'')\<rparr>)"
    by (simp add: outputs_graph_eq)
  from fold_output_edge_body [OF this, of "get_output_edges rdf root"]
  show ?thesis
    by (simp add: set_output_edges_def outputs_graph_eq)
qed

lemma the_subgraph_upd:
  "the_subgraph (g\<lparr>subgraphs := m\<rparr>) name =
     (case m name of Some sg \<Rightarrow> sg | None \<Rightarrow> \<lparr>sg_graph_attr = Map.empty, sg_nodes = []\<rparr>)"
  by (simp add: the_subgraph_def)

lemma attr_upd3_twice:
  "(m(a \<mapsto> x, b \<mapsto> y, c \<mapsto> z))(a \<mapsto> x, b \<mapsto> y, c \<mapsto> z)
     = (m :: attr_map)(a \<mapsto> x, b \<mapsto> y, c \<mapsto> z)"
  by (rule ext) simp

lemma attr_upd4_twice:
  "(m(a \<mapsto> x, b \<mapsto> y, c \<mapsto> z, d \<mapsto> u))(a \<mapsto> x, b \<mapsto> y, c \<mapsto> z, d \<mapsto> u)
     = (m :: attr_map)(a \<mapsto> x, b \<mapsto> y, c \<mapsto> z, d \<mapsto> u)"
  by (rule ext) simp

lemma edges_extracted:
  "edges (extracted rdf root)
     = inner_es (get_inner_edges rdf root) @ input_es (get_input_edges rdf root)
       @ output_es (get_output_edges rdf root)"
  by (simp add: set_inner_edges_eq set_input_edges_eq set_output_edges_eq init_dot_graph_def)

lemma dot_read_only_step:
  "\<forall>g. snd (to_string g) = g \<Longrightarrow> dot to_string self = (fst (to_string (dot_graph self)), self)"
proof -
  assume ro: "\<forall>g. snd (to_string g) = g"
  obtain t g where tg: "to_string (dot_graph self) = (t, g)"
    by (cases "to_string (dot_graph self)")
  with ro have "g = dot_graph self"
    by (metis snd_conv)
  with tg show ?thesis
    by (simp add: dot_def)
qed

section \<open>Root resolution\<close>

text \<open>
  Claim C2. When the root query yields one or more rows, \<^verbatim>\<open>get_root_graph_uri\<close> returns
  the workflow identifier of the first row; when it yields no row, it fails (with Python's
  IndexError, the failure the spec names RootNotFoundError) and the construction of the
  viewer fails with it, so that there is no diagram.
\<close>

theorem root_resolution:
  "(get_root rdf \<noteq> [] \<longrightarrow> get_root_graph_uri rdf = Inr (workflow (hd (get_root rdf))))
   \<and> (get_root rdf = [] \<longrightarrow>
        get_root_graph_uri rdf = Inl IndexError
        \<and> (load_cwl_graph fname = Inr rdf \<longrightarrow>
             CWLViewer_init load_cwl_graph fname = Inl IndexError))"
  by (cases "get_root rdf") (simp_all add: get_root_graph_uri_def CWLViewer_init_def)

theorem root_resolution_witness:
  "get_root_graph_uri ex_two_roots = Inr ''w''
   \<and> get_root_graph_uri ex_no_root = Inl IndexError
   \<and> CWLViewer_init (\<lambda>f. Inr ex_no_root) ''wf.cwl'' = Inl IndexError"
  using root_resolution [of ex_two_roots]
    root_resolution [of ex_no_root "\<lambda>f. Inr ex_no_root" "''wf.cwl''"]
  by (simp add: ex_two_roots_def ex_no_root_def)

section \<open>Labels\<close>

lemma attrs_source_node:
  "attrs (inner_source_node r g) (source_step r) ''label'' =
     Some (agsafeset_label ''label''
        (case source_label r of Some l \<Rightarrow> l | None \<Rightarrow> fragment (source_step r)))"
  by (simp add: inner_source_node_def add_node_eq stored_step_attr) (simp add: step_attr_def)

lemma attrs_target_node:
  "attrs (inner_target_node r g) (target_step r) ''label'' =
     Some (agsafeset_label ''label''
        (case target_label r of Some l \<Rightarrow> l | None \<Rightarrow> fragment (target_step r)))"
  by (simp add: inner_target_node_def add_node_eq stored_step_attr) (simp add: step_attr_def)

lemma attrs_body_target:
  "attrs (inner_edge_body r g) (target_step r) ''label'' =
     Some (agsafeset_label ''label''
        (case target_label r of Some l \<Rightarrow> l | None \<Rightarrow> fragment (target_step r)))"
  by (simp add: inner_edge_body_eq label_of_def step_attr_def)

lemma attrs_body_source:
  "source_step r \<noteq> target_step r \<Longrightarrow>
   attrs (inner_edge_body r g) (source_step r) ''label'' =
     Some (agsafeset_label ''label''
        (case source_label r of Some l \<Rightarrow> l | None \<Rightarrow> fragment (source_step r)))"
  by (simp add: inner_edge_body_eq label_of_def step_attr_def)

lemma attrs_input_node:
  "attrs (input_edge_body r g) (input r) ''label''
     = Some (agsafeset_label ''label'' (fragment (input r)))"
  by (simp add: input_edge_body_eq boundary_delta_def boundary_attr_def)

lemma attrs_output_node:
  "attrs (output_edge_body r g) (output_uri r) ''label''
     = Some (agsafeset_label ''label'' (fragment (output_uri r)))"
  by (simp add: output_edge_body_eq boundary_delta_def boundary_attr_def)

text \<open>
  Claim C1, as the code has it. The node that the inner-edge loop makes for the source step
  of a row carries the declared label whenever the row has one (whenever it is not None,
  the empty string included), and the fragment of the step URI otherwise, as pygraphviz
  stores it; likewise for the target step. After the whole loop body the target node has
  that label, and so has the source node when the two steps differ. What is stored is the
  label itself unless it is not empty, starts with \<^verbatim>\<open><\<close> and ends with \<^verbatim>\<open>>\<close>; then it is
  the label without these two characters. The fragment of a URI is stored as it is.
\<close>

theorem inner_label_resolution:
  "attrs (inner_source_node r g) (source_step r) ''label'' =
     Some (agsafeset_label ''label''
        (case source_label r of Some l \<Rightarrow> l | None \<Rightarrow> fragment (source_step r)))
   \<and> attrs (inner_target_node r g) (target_step r) ''label'' =
     Some (agsafeset_label ''label''
        (case target_label r of Some l \<Rightarrow> l | None \<Rightarrow> fragment (target_step r)))
   \<and> attrs (inner_edge_body r g) (target_step r) ''label'' =
     Some (agsafeset_label ''label''
        (case target_label r of Some l \<Rightarrow> l | None \<Rightarrow> fragment (target_step r)))
   \<and> (source_step r \<noteq> target_step r \<longrightarrow>
        attrs (inner_edge_body r g) (source_step r) ''label'' =
          Some (agsafeset_label ''label''
             (case source_label r of Some l \<Rightarrow> l | None \<Rightarrow> fragment (source_step r))))
   \<and> (source_label r = Some l \<and> (l = [] \<or> hd l \<noteq> CHR ''<'' \<or> last l \<noteq> CHR ''>'') \<longrightarrow>
        attrs (inner_source_node r g) (source_step r) ''label'' = Some l)
   \<and> (target_label r = Some l \<and> (l = [] \<or> hd l \<noteq> CHR ''<'' \<or> last l \<noteq> CHR ''>'') \<longrightarrow>
        attrs (inner_target_node r g) (target_step r) ''label'' = Some l
        \<and> attrs (inner_edge_body r g) (target_step r) ''label'' = Some l)
   \<and> (source_label r = Some (CHR ''<'' # m @ [CHR ''>'']) \<longrightarrow>
        attrs (inner_source_node r g) (source_step r) ''label'' = Some m)
   \<and> (target_label r = Some (CHR ''<'' # m @ [CHR ''>'']) \<longrightarrow>
        attrs (inner_target_node r g) (target_step r) ''label'' = Some m
        \<and> attrs (inner_edge_body r g) (target_step r) ''label'' = Some m)
   \<and> (source_label r = None \<and> is_uri (source_step r) \<longrightarrow>
        attrs (inner_source_node r g) (source_step r) ''label'' = Some (fragment (source_step r)))
   \<and> (target_label r = None \<and> is_uri (target_step r) \<longrightarrow>
        attrs (inner_target_node r g) (target_step r) ''label'' = Some (fragment (target_step r))
        \<and> attrs (inner_edge_body r g) (target_step r) ''label''
            = Some (fragment (target_step r)))"
proof -
  have plain: "\<And>x. x = [] \<or> hd x \<noteq> CHR ''<'' \<or> last x \<noteq> CHR ''>'' \<Longrightarrow>
      agsafeset_label ''label'' x = x"
    by (rule agsafeset_label_plain)
  show ?thesis
    unfolding attrs_source_node attrs_target_node attrs_body_target
    using attrs_body_source [of r g]
    by (auto simp: plain agsafeset_label_html uri_fragment_stored)
qed

theorem inner_label_resolution_witness:
  "attrs (inner_source_node \<lparr>source_step = ''w#S1'', source_label = Some ''Step A'',
        target_step = ''w#S2'', target_label = None\<rparr> init_dot_graph) ''w#S1'' ''label''
     = Some ''Step A''
   \<and> attrs (inner_edge_body \<lparr>source_step = ''w#S1'', source_label = Some ''Step A'',
        target_step = ''w#S2'', target_label = None\<rparr> init_dot_graph) ''w#S2'' ''label''
     = Some ''S2''
   \<and> attrs (inner_edge_body \<lparr>source_step = ''w#S1'', source_label = Some ''Step A'',
        target_step = ''w#S2'', target_label = None\<rparr> init_dot_graph) ''w#S1'' ''label''
     = Some ''Step A''
   \<and> attrs (inner_source_node \<lparr>source_step = ''w#S1'', source_label = Some ''<b>x</b>'',
        target_step = ''w#S2'', target_label = None\<rparr> init_dot_graph) ''w#S1'' ''label''
     = Some ''b>x</b''"
proof -
  have u: "is_uri ''w#S2''"
    by (simp add: is_uri_def uri_chars_def)
  have f: "fragment ''w#S2'' = ''S2''"
    by (simp add: fragment_def)
  have a: "agsafeset_label ''label'' ''Step A'' = ''Step A''"
    by (simp add: agsafeset_label_def)
  have "attrs (inner_source_node \<lparr>source_step = ''w#S1'', source_label = Some ''Step A'',
        target_step = ''w#S2'', target_label = None\<rparr> init_dot_graph) ''w#S1'' ''label''
     = Some ''Step A''
   \<and> attrs (inner_edge_body \<lparr>source_step = ''w#S1'', source_label = Some ''Step A'',
        target_step = ''w#S2'', target_label = None\<rparr> init_dot_graph) ''w#S2'' ''label''
     = Some ''S2''
   \<and> attrs (inner_edge_body \<lparr>source_step = ''w#S1'', source_label = Some ''Step A'',
        target_step = ''w#S2'', target_label = None\<rparr> init_dot_graph) ''w#S1'' ''label''
     = Some ''Step A''"
    using inner_label_resolution [where r = "\<lparr>source_step = ''w#S1'',
        source_label = Some ''Step A'', target_step = ''w#S2'', target_label = None\<rparr>"
        and g = init_dot_graph and l = "''Step A''"] u f a
    by (simp add: agsafeset_label_def)
  moreover have "attrs (inner_source_node \<lparr>source_step = ''w#S1'',
        source_label = Some ''<b>x</b>'', target_step = ''w#S2'', target_label = None\<rparr>
        init_dot_graph) ''w#S1'' ''label'' = Some ''b>x</b''"
    using inner_label_resolution [where r = "\<lparr>source_step = ''w#S1'',
        source_label = Some ''<b>x</b>'', target_step = ''w#S2'', target_label = None\<rparr>"
        and g = init_dot_graph and m = "''b>x</b''"]
    by (simp add: agsafeset_label_def)
  ultimately show ?thesis
    by (intro conjI) simp_all
qed

text \<open>
  Claim C1 as stated fails: a row whose declared source label is the empty string gives a
  node whose label is the empty string, not the fragment \<open>step1\<close> of its URI; and a row
  whose declared source label is \<^verbatim>\<open><b>x</b>\<close> gives a node whose label is \<^verbatim>\<open>b>x</b\<close>,
  neither the declared label nor the fragment.
\<close>

theorem inner_label_empty_counterexample:
  "attrs (set_inner_edges ex_empty_label ''w'' init_dot_graph) ''w#step1'' ''label'' = Some []
   \<and> fragment ''w#step1'' = ''step1''
   \<and> attrs (set_inner_edges ex_empty_label ''w'' init_dot_graph) ''w#step1'' ''label''
       \<noteq> Some (fragment ''w#step1'')
   \<and> attrs (set_inner_edges ex_html_label ''w'' init_dot_graph) ''w#step1'' ''label''
       = Some ''b>x</b''
   \<and> attrs (set_inner_edges ex_html_label ''w'' init_dot_graph) ''w#step1'' ''label''
       \<noteq> Some ''<b>x</b>''"
  by (simp add: set_inner_edges_def ex_empty_label_def ex_html_label_def inner_edge_body_def
      inner_source_node_def inner_target_node_def add_edge_def add_node_def stored_def
      agsafeset_label_def step_attr_def init_dot_graph_def ins_def fragment_def Let_def)

text \<open>
  Claim C6. The identifiers are URIs, and the label that the code derives from a URI, the
  fragment that \<^verbatim>\<open>urlparse\<close> returns, is what follows the last \<^verbatim>\<open>#\<close> of the URI (its only
  one). It is the label of every input and output node and of every step node whose row
  declares no label. For a URI with no \<^verbatim>\<open>#\<close> the fragment is the empty string, and the
  node gets the empty string as its label like any other fragment.
\<close>

theorem fragment_derivation:
  "(is_uri u \<longrightarrow> fragment u = after_last_hash u)
   \<and> (CHR ''#'' \<notin> set u \<longrightarrow> fragment u = [])
   \<and> (source_label r = None \<and> is_uri (source_step r) \<longrightarrow>
        attrs (inner_source_node r g) (source_step r) ''label''
          = Some (after_last_hash (source_step r)))
   \<and> (target_label r = None \<and> is_uri (target_step r) \<longrightarrow>
        attrs (inner_target_node r g) (target_step r) ''label''
          = Some (after_last_hash (target_step r))
        \<and> attrs (inner_edge_body r g) (target_step r) ''label''
          = Some (after_last_hash (target_step r)))
   \<and> (is_uri (input ri) \<longrightarrow>
        attrs (input_edge_body ri g) (input ri) ''label'' = Some (after_last_hash (input ri)))
   \<and> (is_uri (output_uri ro) \<longrightarrow>
        attrs (output_edge_body ro g) (output_uri ro) ''label''
          = Some (after_last_hash (output_uri ro)))
   \<and> (source_label r = None \<and> CHR ''#'' \<notin> set (source_step r) \<longrightarrow>
        attrs (inner_source_node r g) (source_step r) ''label'' = Some [])
   \<and> (target_label r = None \<and> CHR ''#'' \<notin> set (target_step r) \<longrightarrow>
        attrs (inner_target_node r g) (target_step r) ''label'' = Some [])
   \<and> (CHR ''#'' \<notin> set (input ri) \<longrightarrow>
        attrs (input_edge_body ri g) (input ri) ''label'' = Some [])
   \<and> (CHR ''#'' \<notin> set (output_uri ro) \<longrightarrow>
        attrs (output_edge_body ro g) (output_uri ro) ''label'' = Some [])"
proof -
  have e: "agsafeset_label ''label'' [] = []"
    by (simp add: agsafeset_label_def)
  have "is_uri u \<Longrightarrow> fragment u = after_last_hash u"
    by (simp add: fragment_after_last_hash is_uri_def)
  then show ?thesis
    unfolding attrs_source_node attrs_target_node attrs_body_target attrs_input_node
      attrs_output_node
    by (auto simp: uri_fragment_label fragment_no_hash e)
qed

theorem fragment_derivation_witness:
  "fragment ''file:///home/u/wf.cwl#main/step1'' = ''main/step1''
   \<and> after_last_hash ''file:///home/u/wf.cwl#main/step1'' = ''main/step1''
   \<and> fragment ''http://ex.org/wf'' = []
   \<and> attrs (inner_source_node \<lparr>source_step = ''w#S1'', source_label = None,
        target_step = ''w'', target_label = None\<rparr> init_dot_graph) ''w#S1'' ''label'' = Some ''S1''
   \<and> attrs (inner_target_node \<lparr>source_step = ''w#S1'', source_label = None,
        target_step = ''w'', target_label = None\<rparr> init_dot_graph) ''w'' ''label'' = Some []
   \<and> attrs (input_edge_body \<lparr>input = ''w#I'', step = ''w#S''\<rparr> init_dot_graph) ''w#I'' ''label''
       = Some ''I''
   \<and> attrs (output_edge_body \<lparr>output_uri = ''w'', step = ''w#S''\<rparr> init_dot_graph) ''w''
        ''label'' = Some []"
proof -
  have u: "is_uri ''file:///home/u/wf.cwl#main/step1''" "is_uri ''w#S1''" "is_uri ''w#I''"
    by (simp_all add: is_uri_def uri_chars_def)
  have a: "after_last_hash ''file:///home/u/wf.cwl#main/step1'' = ''main/step1''"
    "after_last_hash ''w#S1'' = ''S1''" "after_last_hash ''w#I'' = ''I''"
    by (simp_all add: after_last_hash_def)
  have "fragment ''file:///home/u/wf.cwl#main/step1'' = ''main/step1''"
    using fragment_derivation [where u = "''file:///home/u/wf.cwl#main/step1''",
        THEN conjunct1] u a
    by simp
  moreover have "fragment ''http://ex.org/wf'' = []"
    using fragment_derivation [where u = "''http://ex.org/wf''", THEN conjunct2,
        THEN conjunct1]
    by simp
  moreover have "attrs (inner_source_node \<lparr>source_step = ''w#S1'', source_label = None,
        target_step = ''w'', target_label = None\<rparr> init_dot_graph) ''w#S1'' ''label'' = Some ''S1''
   \<and> attrs (inner_target_node \<lparr>source_step = ''w#S1'', source_label = None,
        target_step = ''w'', target_label = None\<rparr> init_dot_graph) ''w'' ''label'' = Some []
   \<and> attrs (input_edge_body \<lparr>input = ''w#I'', step = ''w#S''\<rparr> init_dot_graph) ''w#I'' ''label''
       = Some ''I''
   \<and> attrs (output_edge_body \<lparr>output_uri = ''w'', step = ''w#S''\<rparr> init_dot_graph) ''w''
        ''label'' = Some []"
    using fragment_derivation [where r = "\<lparr>source_step = ''w#S1'', source_label = None,
        target_step = ''w'', target_label = None\<rparr>" and g = init_dot_graph
        and ri = "\<lparr>input = ''w#I'', step = ''w#S''\<rparr>"
        and ro = "\<lparr>output_uri = ''w'', step = ''w#S''\<rparr>"] u a
    by simp
  ultimately show ?thesis
    using a by (intro conjI) simp_all
qed

section \<open>Boundary edges\<close>

text \<open>
  Claim C3. For every row of the input query, after the input-edge extractor the input URI
  is a node of the graph and of the cluster \<open>cluster_inputs\<close>, its attributes are those it
  had with the boundary fill, the filled style and the fragment of the input URI as label
  written over them (the row carries no label that could be consulted), and the edge from
  the input to the step is in the graph; the edges of the rows are appended in row order.
  Likewise for every row of the output query, with the cluster \<open>cluster_outputs\<close> and the
  edge from the step to the output. The label is the fragment as pygraphviz stores it,
  which for a URI is the fragment itself.
\<close>

theorem boundary_edge_construction:
  "(r \<in> set (get_input_edges rdf root) \<longrightarrow>
      input r \<in> set (nodes (set_input_edges rdf root g))
      \<and> input r \<in> set (cluster_nodes (set_input_edges rdf root g) ''cluster_inputs'')
      \<and> attrs (set_input_edges rdf root g) (input r)
            = attrs g (input r) ++ boundary_attr (agsafeset_label ''label'' (fragment (input r)))
      \<and> boundary_styled (set_input_edges rdf root g) (input r)
      \<and> attrs (set_input_edges rdf root g) (input r) ''label''
            = Some (agsafeset_label ''label'' (fragment (input r)))
      \<and> (is_uri (input r) \<longrightarrow>
           attrs (set_input_edges rdf root g) (input r)
             = attrs g (input r) ++ boundary_attr (fragment (input r))
           \<and> attrs (set_input_edges rdf root g) (input r) ''label'' = Some (fragment (input r)))
      \<and> (input r, input_row.step r) \<in> set (edges (set_input_edges rdf root g)))
   \<and> edges (set_input_edges rdf root g) = edges g @ input_es (get_input_edges rdf root)
   \<and> (q \<in> set (get_output_edges rdf root) \<longrightarrow>
      output_uri q \<in> set (nodes (set_output_edges rdf root g))
      \<and> output_uri q \<in> set (cluster_nodes (set_output_edges rdf root g) ''cluster_outputs'')
      \<and> attrs (set_output_edges rdf root g) (output_uri q)
            = attrs g (output_uri q)
              ++ boundary_attr (agsafeset_label ''label'' (fragment (output_uri q)))
      \<and> boundary_styled (set_output_edges rdf root g) (output_uri q)
      \<and> attrs (set_output_edges rdf root g) (output_uri q) ''label''
            = Some (agsafeset_label ''label'' (fragment (output_uri q)))
      \<and> (is_uri (output_uri q) \<longrightarrow>
           attrs (set_output_edges rdf root g) (output_uri q)
             = attrs g (output_uri q) ++ boundary_attr (fragment (output_uri q))
           \<and> attrs (set_output_edges rdf root g) (output_uri q) ''label''
             = Some (fragment (output_uri q)))
      \<and> (output_row.step q, output_uri q) \<in> set (edges (set_output_edges rdf root g)))
   \<and> edges (set_output_edges rdf root g) = edges g @ output_es (get_output_edges rdf root)"
  by (auto simp: set_input_edges_eq set_output_edges_eq set_fold_ins cluster_nodes_def
      the_subgraph_def boundary_delta_def boundary_styled_def boundary_attr_def
      input_nodes_def output_nodes_def input_es_def output_es_def uri_fragment_stored)

theorem boundary_edge_construction_witness:
  "''w#I'' \<in> set (nodes (set_input_edges ex_two_steps ''w'' init_dot_graph))
   \<and> ''w#I'' \<in> set (cluster_nodes (set_input_edges ex_two_steps ''w'' init_dot_graph)
        ''cluster_inputs'')
   \<and> boundary_styled (set_input_edges ex_two_steps ''w'' init_dot_graph) ''w#I''
   \<and> attrs (set_input_edges ex_two_steps ''w'' init_dot_graph) ''w#I'' ''label'' = Some ''I''
   \<and> edges (set_input_edges ex_two_steps ''w'' init_dot_graph) = [(''w#I'', ''w#S1'')]
   \<and> ''w#O'' \<in> set (nodes (set_output_edges ex_two_steps ''w'' init_dot_graph))
   \<and> ''w#O'' \<in> set (cluster_nodes (set_output_edges ex_two_steps ''w'' init_dot_graph)
        ''cluster_outputs'')
   \<and> boundary_styled (set_output_edges ex_two_steps ''w'' init_dot_graph) ''w#O''
   \<and> attrs (set_output_edges ex_two_steps ''w'' init_dot_graph) ''w#O'' ''label'' = Some ''O''
   \<and> edges (set_output_edges ex_two_steps ''w'' init_dot_graph) = [(''w#S2'', ''w#O'')]"
proof -
  have rows: "\<lparr>input = ''w#I'', step = ''w#S1''\<rparr> \<in> set (get_input_edges ex_two_steps ''w'')"
    "\<lparr>output_uri = ''w#O'', step = ''w#S2''\<rparr> \<in> set (get_output_edges ex_two_steps ''w'')"
    by (simp_all add: ex_two_steps_def)
  have es: "input_es (get_input_edges ex_two_steps ''w'') = [(''w#I'', ''w#S1'')]"
    "output_es (get_output_edges ex_two_steps ''w'') = [(''w#S2'', ''w#O'')]"
    "edges init_dot_graph = []"
    by (simp_all add: ex_two_steps_def input_es_def output_es_def init_dot_graph_def)
  have fr: "fragment ''w#I'' = ''I''" "fragment ''w#O'' = ''O''"
    by (simp_all add: fragment_def)
  have u: "is_uri ''w#I''" "is_uri ''w#O''"
    by (simp_all add: is_uri_def uri_chars_def)
  show ?thesis
    using boundary_edge_construction [of "\<lparr>input = ''w#I'', step = ''w#S1''\<rparr>" ex_two_steps
        "''w''" init_dot_graph "\<lparr>output_uri = ''w#O'', step = ''w#S2''\<rparr>"] rows es fr u
    by (simp add: boundary_attr_def agsafeset_label_def)
qed

section \<open>Running an extractor twice\<close>

text \<open>
  Claim C5. Each of the three extractors, run a second time on the graph that its first
  run returned, with the same fact graph and root, returns that graph with the edges of
  its rows appended once more: the nodes, their order, their attributes, the clusters and
  the graph attributes are those of the first run, and the edge sequence holds the
  extractor's edges twice after the edges the graph had.
\<close>

theorem extractor_idempotence:
  "set_inner_edges rdf root (set_inner_edges rdf root g)
     = (set_inner_edges rdf root g)
         \<lparr>edges := edges g @ inner_es (get_inner_edges rdf root) @ inner_es (get_inner_edges rdf root)\<rparr>
   \<and> edges (set_inner_edges rdf root g) = edges g @ inner_es (get_inner_edges rdf root)
   \<and> set_input_edges rdf root (set_input_edges rdf root g)
     = (set_input_edges rdf root g)
         \<lparr>edges := edges g @ input_es (get_input_edges rdf root) @ input_es (get_input_edges rdf root)\<rparr>
   \<and> edges (set_input_edges rdf root g) = edges g @ input_es (get_input_edges rdf root)
   \<and> set_output_edges rdf root (set_output_edges rdf root g)
     = (set_output_edges rdf root g)
         \<lparr>edges := edges g @ output_es (get_output_edges rdf root) @ output_es (get_output_edges rdf root)\<rparr>
   \<and> edges (set_output_edges rdf root g) = edges g @ output_es (get_output_edges rdf root)"
proof -
  have e1: "set_inner_edges rdf root (set_inner_edges rdf root g)
     = (set_inner_edges rdf root g)
         \<lparr>edges := edges g @ inner_es (get_inner_edges rdf root) @ inner_es (get_inner_edges rdf root)\<rparr>"
    by (simp add: set_inner_edges_eq [of rdf root] fold_ins_twice map_add_same)
  have e2: "set_input_edges rdf root (set_input_edges rdf root g)
     = (set_input_edges rdf root g)
         \<lparr>edges := edges g @ input_es (get_input_edges rdf root) @ input_es (get_input_edges rdf root)\<rparr>"
    by (simp add: set_input_edges_eq [of rdf root] fold_ins_twice map_add_same the_subgraph_upd
        attr_upd3_twice)
  have e3: "set_output_edges rdf root (set_output_edges rdf root g)
     = (set_output_edges rdf root g)
         \<lparr>edges := edges g @ output_es (get_output_edges rdf root) @ output_es (get_output_edges rdf root)\<rparr>"
    by (simp add: set_output_edges_eq [of rdf root] fold_ins_twice map_add_same the_subgraph_upd
        attr_upd4_twice)
  show ?thesis
    using e1 e2 e3
    by (simp add: set_inner_edges_eq [of rdf root g] set_input_edges_eq [of rdf root g]
        set_output_edges_eq [of rdf root g])
qed

theorem extractor_idempotence_witness:
  "edges (set_inner_edges ex_two_steps ''w'' (set_inner_edges ex_two_steps ''w'' init_dot_graph))
     = [(''w#S1'', ''w#S2''), (''w#S1'', ''w#S2'')]
   \<and> nodes (set_inner_edges ex_two_steps ''w'' (set_inner_edges ex_two_steps ''w'' init_dot_graph))
     = nodes (set_inner_edges ex_two_steps ''w'' init_dot_graph)
   \<and> attrs (set_inner_edges ex_two_steps ''w'' (set_inner_edges ex_two_steps ''w'' init_dot_graph))
     = attrs (set_inner_edges ex_two_steps ''w'' init_dot_graph)
   \<and> edges (set_input_edges ex_two_steps ''w'' (set_input_edges ex_two_steps ''w'' init_dot_graph))
     = [(''w#I'', ''w#S1''), (''w#I'', ''w#S1'')]
   \<and> subgraphs (set_input_edges ex_two_steps ''w'' (set_input_edges ex_two_steps ''w'' init_dot_graph))
     = subgraphs (set_input_edges ex_two_steps ''w'' init_dot_graph)
   \<and> edges (set_output_edges ex_two_steps ''w'' (set_output_edges ex_two_steps ''w'' init_dot_graph))
     = [(''w#S2'', ''w#O''), (''w#S2'', ''w#O'')]"
proof -
  have es: "inner_es (get_inner_edges ex_two_steps ''w'') = [(''w#S1'', ''w#S2'')]"
    "input_es (get_input_edges ex_two_steps ''w'') = [(''w#I'', ''w#S1'')]"
    "output_es (get_output_edges ex_two_steps ''w'') = [(''w#S2'', ''w#O'')]"
    "edges init_dot_graph = []"
    by (simp_all add: ex_two_steps_def inner_es_def input_es_def output_es_def init_dot_graph_def)
  show ?thesis
    using extractor_idempotence [of ex_two_steps "''w''" init_dot_graph] es
    by simp
qed

section \<open>The order of construction\<close>

text \<open>
  Claim C7. A construction that returns a viewer has loaded the fact graph, resolved the
  root on it, and run the inner-edge, the input-edge and the output-edge extractor in this
  order, each on the graph the step before it returned and each bound to the resolved
  root: the edges of the diagram are the inner edges, then the input edges, then the
  output edges of that root. When the load fails, or the root resolution fails, the
  construction fails with that error and no extractor has run.
\<close>

theorem construction_pipeline:
  "(CWLViewer_init load_cwl_graph fname = Inr v \<longrightarrow>
      (\<exists>rdf root.
         load_cwl_graph fname = Inr rdf \<and> get_root_graph_uri rdf = Inr root
         \<and> filename v = fname \<and> rdf_graph v = rdf \<and> root_graph_uri v = root
         \<and> dot_graph v
             = set_output_edges rdf root
                 (set_input_edges rdf root (set_inner_edges rdf root init_dot_graph))
         \<and> edges (dot_graph v)
             = inner_es (get_inner_edges rdf root) @ input_es (get_input_edges rdf root)
               @ output_es (get_output_edges rdf root)))
   \<and> (load_cwl_graph fname = Inl e \<longrightarrow> CWLViewer_init load_cwl_graph fname = Inl e)
   \<and> (load_cwl_graph fname = Inr rdf \<and> get_root_graph_uri rdf = Inl e \<longrightarrow>
        CWLViewer_init load_cwl_graph fname = Inl e)
   \<and> (load_cwl_graph fname = Inr rdf \<and> get_root_graph_uri rdf = Inr root \<longrightarrow>
        CWLViewer_init load_cwl_graph fname
          = Inr \<lparr>filename = fname, dot_graph = extracted rdf root, rdf_graph = rdf,
                 root_graph_uri = root\<rparr>)"
proof -
  have "CWLViewer_init load_cwl_graph fname = Inr v \<Longrightarrow>
      (\<exists>rdf root.
         load_cwl_graph fname = Inr rdf \<and> get_root_graph_uri rdf = Inr root
         \<and> filename v = fname \<and> rdf_graph v = rdf \<and> root_graph_uri v = root
         \<and> dot_graph v = extracted rdf root
         \<and> edges (dot_graph v)
             = inner_es (get_inner_edges rdf root) @ input_es (get_input_edges rdf root)
               @ output_es (get_output_edges rdf root))"
    by (auto simp: CWLViewer_init_def Let_def edges_extracted split: sum.splits)
  then show ?thesis
    by (auto simp: CWLViewer_init_def Let_def)
qed

theorem construction_pipeline_witness:
  "CWLViewer_init (\<lambda>f. Inr ex_two_steps) ''wf.cwl''
     = Inr \<lparr>filename = ''wf.cwl'', dot_graph = extracted ex_two_steps ''w'',
            rdf_graph = ex_two_steps, root_graph_uri = ''w''\<rparr>
   \<and> edges (extracted ex_two_steps ''w'')
     = [(''w#S1'', ''w#S2''), (''w#I'', ''w#S1''), (''w#S2'', ''w#O'')]
   \<and> CWLViewer_init (\<lambda>f. Inl (ExternalError ''cwltool'')) ''wf.cwl''
     = Inl (ExternalError ''cwltool'')
   \<and> CWLViewer_init (\<lambda>f. Inr ex_no_root) ''wf.cwl'' = Inl IndexError"
proof -
  have root: "get_root_graph_uri ex_two_steps = Inr ''w''"
    "get_root_graph_uri ex_no_root = Inl IndexError"
    by (simp_all add: get_root_graph_uri_def ex_two_steps_def ex_no_root_def)
  have es: "inner_es (get_inner_edges ex_two_steps ''w'') = [(''w#S1'', ''w#S2'')]"
    "input_es (get_input_edges ex_two_steps ''w'') = [(''w#I'', ''w#S1'')]"
    "output_es (get_output_edges ex_two_steps ''w'') = [(''w#S2'', ''w#O'')]"
    by (simp_all add: ex_two_steps_def inner_es_def input_es_def output_es_def)
  have a: "CWLViewer_init (\<lambda>f. Inr ex_two_steps) ''wf.cwl''
     = Inr \<lparr>filename = ''wf.cwl'', dot_graph = extracted ex_two_steps ''w'',
            rdf_graph = ex_two_steps, root_graph_uri = ''w''\<rparr>"
    using construction_pipeline [where load_cwl_graph = "\<lambda>f. Inr ex_two_steps"
        and fname = "''wf.cwl''" and rdf = ex_two_steps and root = "''w''",
        THEN conjunct2, THEN conjunct2, THEN conjunct2] root
    by simp
  from construction_pipeline [where load_cwl_graph = "\<lambda>f. Inr ex_two_steps"
        and fname = "''wf.cwl''"
        and v = "\<lparr>filename = ''wf.cwl'', dot_graph = extracted ex_two_steps ''w'',
            rdf_graph = ex_two_steps, root_graph_uri = ''w''\<rparr>", THEN conjunct1] a
  obtain rdf root where "Inr ex_two_steps = (Inr rdf :: error + rdf_graph)"
      "get_root_graph_uri rdf = Inr root"
      "edges (extracted ex_two_steps ''w'')
         = inner_es (get_inner_edges rdf root) @ input_es (get_input_edges rdf root)
           @ output_es (get_output_edges rdf root)"
    by auto
  with root es have b: "edges (extracted ex_two_steps ''w'')
     = [(''w#S1'', ''w#S2''), (''w#I'', ''w#S1''), (''w#S2'', ''w#O'')]"
    by simp
  have c: "CWLViewer_init (\<lambda>f. Inl (ExternalError ''cwltool'')) ''wf.cwl''
     = Inl (ExternalError ''cwltool'')"
    using construction_pipeline [where load_cwl_graph = "\<lambda>f. Inl (ExternalError ''cwltool'')"
        and fname = "''wf.cwl''" and e = "ExternalError ''cwltool''",
        THEN conjunct2, THEN conjunct1]
    by simp
  have d: "CWLViewer_init (\<lambda>f. Inr ex_no_root) ''wf.cwl'' = Inl IndexError"
    using construction_pipeline [where load_cwl_graph = "\<lambda>f. Inr ex_no_root"
        and fname = "''wf.cwl''" and e = IndexError and rdf = ex_no_root,
        THEN conjunct2, THEN conjunct2, THEN conjunct1] root
    by simp
  from a b c d show ?thesis
    by (intro conjI)
qed

section \<open>Text export\<close>

text \<open>
  What \<^verbatim>\<open>dot\<close> itself does: it hands the graph to the serializer and returns its text,
  and stores nothing. Whether the graph is the same afterwards is the serializer's doing
  (pygraphviz's \<^verbatim>\<open>to_string\<close>, which writes the graph with Graphviz's \<^verbatim>\<open>agwrite\<close>); with
  a serializer that leaves the graph as it found it, any number of calls leaves the viewer
  unchanged.
\<close>

lemma dot_calls_unchanged:
  "\<forall>g. snd (to_string g) = g \<Longrightarrow>
   dot_calls to_string n self = (replicate n (fst (to_string (dot_graph self))), self)"
  by (induction n) (simp_all add: dot_read_only_step)

section \<open>The graph after the three passes\<close>

lemma inner_delta_notin: "n \<notin> set (inner_nodes rows) \<Longrightarrow> inner_delta rows n = Map.empty"
  by (induction rows) (simp_all add: inner_nodes_def)

lemma inner_delta_in:
  "n \<in> set (inner_nodes rows) \<Longrightarrow>
   inner_delta rows n ''fillcolor'' = Some ''lightgoldenrodyellow''
   \<and> inner_delta rows n ''style'' = Some ''filled''
   \<and> inner_delta rows n ''label'' \<noteq> None"
proof (induction rows)
  case Nil
  then show ?case by (simp add: inner_nodes_def)
next
  case (Cons r rows)
  show ?case
  proof (cases "n \<in> set (inner_nodes rows)")
    case True
    with Cons.IH show ?thesis
      by (auto simp: map_add_def)
  next
    case False
    with Cons.prems have "n = source_step r \<or> n = target_step r"
      by (simp add: inner_nodes_def)
    with False show ?thesis
      by (auto simp: inner_delta_notin step_attr_def map_add_def)
  qed
qed

lemma attrs_extracted:
  "attrs (extracted rdf root) n
     = (inner_delta (get_inner_edges rdf root) n
        ++ boundary_delta (map input (get_input_edges rdf root)) n)
       ++ boundary_delta (map output_uri (get_output_edges rdf root)) n"
  by (simp add: set_inner_edges_eq set_input_edges_eq set_output_edges_eq init_dot_graph_def)

lemma nodes_extracted:
  "set (nodes (extracted rdf root))
     = set (inner_nodes (get_inner_edges rdf root))
       \<union> set (input_nodes (get_input_edges rdf root))
       \<union> set (output_nodes (get_output_edges rdf root))"
  by (simp add: set_inner_edges_eq set_input_edges_eq set_output_edges_eq init_dot_graph_def
      set_fold_ins)

lemma cluster_inputs_extracted:
  "set (cluster_nodes (extracted rdf root) ''cluster_inputs'')
     = input ` set (get_input_edges rdf root)"
  by (simp add: cluster_nodes_def set_inner_edges_eq set_input_edges_eq set_output_edges_eq
      init_dot_graph_def the_subgraph_def set_fold_ins)

lemma cluster_outputs_extracted:
  "set (cluster_nodes (extracted rdf root) ''cluster_outputs'')
     = output_uri ` set (get_output_edges rdf root)"
  by (simp add: cluster_nodes_def set_inner_edges_eq set_input_edges_eq set_output_edges_eq
      init_dot_graph_def the_subgraph_def set_fold_ins)

lemma node_attr_extracted: "node_attr (extracted rdf root) = [''shape'' \<mapsto> ''record'']"
  by (simp add: set_inner_edges_eq set_input_edges_eq set_output_edges_eq init_dot_graph_def)

lemma boundary_styled_extracted:
  "n \<in> input ` set (get_input_edges rdf root) \<or> n \<in> output_uri ` set (get_output_edges rdf root)
   \<Longrightarrow> boundary_styled (extracted rdf root) n
       \<and> attrs (extracted rdf root) n ''label'' = Some (agsafeset_label ''label'' (fragment n))"
  by (auto simp: boundary_styled_def attrs_extracted boundary_delta_def boundary_attr_def
      map_add_def)

lemma step_in_nodes:
  "r \<in> set (get_input_edges rdf root) \<Longrightarrow> input_row.step r \<in> set (nodes (extracted rdf root))"
  "q \<in> set (get_output_edges rdf root) \<Longrightarrow> output_row.step q \<in> set (nodes (extracted rdf root))"
  by (auto simp: nodes_extracted input_nodes_def output_nodes_def)

lemma boundary_edges_extracted:
  "r \<in> set (get_input_edges rdf root) \<Longrightarrow>
     (input r, input_row.step r) \<in> set (edges (extracted rdf root))"
  "q \<in> set (get_output_edges rdf root) \<Longrightarrow>
     (output_row.step q, output_uri q) \<in> set (edges (extracted rdf root))"
  by (auto simp: edges_extracted input_es_def output_es_def)

lemma internal_step_extracted:
  "s \<in> set (inner_nodes (get_inner_edges rdf root)) \<Longrightarrow>
   s \<notin> input ` set (get_input_edges rdf root) \<Longrightarrow>
   s \<notin> output_uri ` set (get_output_edges rdf root) \<Longrightarrow>
   internal_step_styled (extracted rdf root) s"
  using inner_delta_in [of s "get_inner_edges rdf root"]
  by (simp add: internal_step_styled_def attrs_extracted boundary_delta_def)

lemma ex_two_steps_rows:
  "get_inner_edges ex_two_steps ''w''
     = [\<lparr>source_step = ''w#S1'', source_label = Some ''Step A'',
         target_step = ''w#S2'', target_label = Some ''Step B''\<rparr>]"
  "get_input_edges ex_two_steps ''w'' = [\<lparr>input = ''w#I'', step = ''w#S1''\<rparr>]"
  "get_output_edges ex_two_steps ''w'' = [\<lparr>output_uri = ''w#O'', step = ''w#S2''\<rparr>]"
  by (simp_all add: ex_two_steps_def)

lemma implicit_node_attrs:
  "s \<notin> set (inner_nodes (get_inner_edges rdf root)) \<Longrightarrow>
   s \<notin> input ` set (get_input_edges rdf root) \<Longrightarrow>
   s \<notin> output_uri ` set (get_output_edges rdf root) \<Longrightarrow>
   attrs (extracted rdf root) s = Map.empty"
  by (simp add: attrs_extracted inner_delta_notin boundary_delta_def)

lemma inner_node_attrs:
  "n \<in> set (inner_nodes (get_inner_edges rdf root)) \<Longrightarrow>
   attrs (extracted rdf root) n ''fillcolor'' \<noteq> None
   \<and> attrs (extracted rdf root) n ''style'' = Some ''filled''
   \<and> attrs (extracted rdf root) n ''label'' \<noteq> None"
  using inner_delta_in [of n "get_inner_edges rdf root"]
  by (auto simp: attrs_extracted boundary_delta_def boundary_attr_def map_add_def)

lemma ex_single_step_rows:
  "get_inner_edges ex_single_step ''w'' = []"
  "get_input_edges ex_single_step ''w'' = [\<lparr>input = ''w#I'', step = ''w#S''\<rparr>]"
  "get_output_edges ex_single_step ''w'' = [\<lparr>output_uri = ''w#O'', step = ''w#S''\<rparr>]"
  by (simp_all add: ex_single_step_def)

section \<open>Clusters\<close>

text \<open>
  Claim C4, as the code has it. After the three extraction passes, every node of the
  cluster \<open>cluster_inputs\<close> carries the boundary fill and the filled style and has an edge
  to the step of one of its input rows, and that step is a node of the diagram; every node
  of the cluster \<open>cluster_outputs\<close> carries the same fill and style and has an edge from the
  step of one of its output rows, a node of the diagram too. A step is styled as an
  internal step when it occurs in an inner-edge row and is neither an input nor an output
  URI. The two clusters share no node when no URI is both the input of an input row and
  the output of an output row.
\<close>

theorem cluster_invariants:
  "(n \<in> set (cluster_nodes (extracted rdf root) ''cluster_inputs'') \<longrightarrow>
      boundary_styled (extracted rdf root) n
      \<and> (\<exists>r \<in> set (get_input_edges rdf root).
            input r = n
            \<and> (n, input_row.step r) \<in> set (edges (extracted rdf root))
            \<and> input_row.step r \<in> set (nodes (extracted rdf root))))
   \<and> (n \<in> set (cluster_nodes (extracted rdf root) ''cluster_outputs'') \<longrightarrow>
      boundary_styled (extracted rdf root) n
      \<and> (\<exists>q \<in> set (get_output_edges rdf root).
            output_uri q = n
            \<and> (output_row.step q, n) \<in> set (edges (extracted rdf root))
            \<and> output_row.step q \<in> set (nodes (extracted rdf root))))
   \<and> (s \<in> set (inner_nodes (get_inner_edges rdf root))
       \<and> s \<notin> input ` set (get_input_edges rdf root)
       \<and> s \<notin> output_uri ` set (get_output_edges rdf root) \<longrightarrow>
      internal_step_styled (extracted rdf root) s)
   \<and> (input ` set (get_input_edges rdf root) \<inter> output_uri ` set (get_output_edges rdf root) = {}
       \<longrightarrow> set (cluster_nodes (extracted rdf root) ''cluster_inputs'')
           \<inter> set (cluster_nodes (extracted rdf root) ''cluster_outputs'') = {})"
proof (intro conjI impI)
  assume "n \<in> set (cluster_nodes (extracted rdf root) ''cluster_inputs'')"
  then have n: "n \<in> input ` set (get_input_edges rdf root)"
    by (simp only: cluster_inputs_extracted)
  then show "boundary_styled (extracted rdf root) n"
    using boundary_styled_extracted [of n rdf root] by blast
  from n obtain r where "r \<in> set (get_input_edges rdf root)" "input r = n"
    by auto
  then show "\<exists>r \<in> set (get_input_edges rdf root).
            input r = n
            \<and> (n, input_row.step r) \<in> set (edges (extracted rdf root))
            \<and> input_row.step r \<in> set (nodes (extracted rdf root))"
    using step_in_nodes(1) [of r rdf root] boundary_edges_extracted(1) [of r rdf root]
    by blast
next
  assume "n \<in> set (cluster_nodes (extracted rdf root) ''cluster_outputs'')"
  then have n: "n \<in> output_uri ` set (get_output_edges rdf root)"
    by (simp only: cluster_outputs_extracted)
  then show "boundary_styled (extracted rdf root) n"
    using boundary_styled_extracted [of n rdf root] by blast
  from n obtain q where "q \<in> set (get_output_edges rdf root)" "output_uri q = n"
    by auto
  then show "\<exists>q \<in> set (get_output_edges rdf root).
            output_uri q = n
            \<and> (output_row.step q, n) \<in> set (edges (extracted rdf root))
            \<and> output_row.step q \<in> set (nodes (extracted rdf root))"
    using step_in_nodes(2) [of q rdf root] boundary_edges_extracted(2) [of q rdf root]
    by blast
next
  assume "s \<in> set (inner_nodes (get_inner_edges rdf root))
       \<and> s \<notin> input ` set (get_input_edges rdf root)
       \<and> s \<notin> output_uri ` set (get_output_edges rdf root)"
  then show "internal_step_styled (extracted rdf root) s"
    using internal_step_extracted [of s rdf root] by blast
next
  assume "input ` set (get_input_edges rdf root) \<inter> output_uri ` set (get_output_edges rdf root) = {}"
  then show "set (cluster_nodes (extracted rdf root) ''cluster_inputs'')
           \<inter> set (cluster_nodes (extracted rdf root) ''cluster_outputs'') = {}"
    by (simp only: cluster_inputs_extracted cluster_outputs_extracted)
qed

theorem cluster_invariants_witness:
  "boundary_styled (extracted ex_two_steps ''w'') ''w#I''
   \<and> (''w#I'', ''w#S1'') \<in> set (edges (extracted ex_two_steps ''w''))
   \<and> ''w#S1'' \<in> set (nodes (extracted ex_two_steps ''w''))
   \<and> boundary_styled (extracted ex_two_steps ''w'') ''w#O''
   \<and> (''w#S2'', ''w#O'') \<in> set (edges (extracted ex_two_steps ''w''))
   \<and> ''w#S2'' \<in> set (nodes (extracted ex_two_steps ''w''))
   \<and> internal_step_styled (extracted ex_two_steps ''w'') ''w#S1''
   \<and> set (cluster_nodes (extracted ex_two_steps ''w'') ''cluster_inputs'')
       \<inter> set (cluster_nodes (extracted ex_two_steps ''w'') ''cluster_outputs'') = {}"
proof -
  have i: "''w#I'' \<in> set (cluster_nodes (extracted ex_two_steps ''w'') ''cluster_inputs'')"
    by (simp add: cluster_inputs_extracted ex_two_steps_rows)
  have o: "''w#O'' \<in> set (cluster_nodes (extracted ex_two_steps ''w'') ''cluster_outputs'')"
    by (simp add: cluster_outputs_extracted ex_two_steps_rows)
  have a: "boundary_styled (extracted ex_two_steps ''w'') ''w#I''
      \<and> (''w#I'', ''w#S1'') \<in> set (edges (extracted ex_two_steps ''w''))
      \<and> ''w#S1'' \<in> set (nodes (extracted ex_two_steps ''w''))"
    using cluster_invariants [where n = "''w#I''" and rdf = ex_two_steps and root = "''w''",
        THEN conjunct1] i
    by (simp add: ex_two_steps_rows)
  have b: "boundary_styled (extracted ex_two_steps ''w'') ''w#O''
      \<and> (''w#S2'', ''w#O'') \<in> set (edges (extracted ex_two_steps ''w''))
      \<and> ''w#S2'' \<in> set (nodes (extracted ex_two_steps ''w''))"
    using cluster_invariants [where n = "''w#O''" and rdf = ex_two_steps and root = "''w''",
        THEN conjunct2, THEN conjunct1] o
    by (simp add: ex_two_steps_rows)
  have c: "internal_step_styled (extracted ex_two_steps ''w'') ''w#S1''"
    using cluster_invariants [where s = "''w#S1''" and rdf = ex_two_steps and root = "''w''",
        THEN conjunct2, THEN conjunct2, THEN conjunct1]
    by (simp add: ex_two_steps_rows inner_nodes_def)
  have d: "set (cluster_nodes (extracted ex_two_steps ''w'') ''cluster_inputs'')
       \<inter> set (cluster_nodes (extracted ex_two_steps ''w'') ''cluster_outputs'') = {}"
    using cluster_invariants [where rdf = ex_two_steps and root = "''w''",
        THEN conjunct2, THEN conjunct2, THEN conjunct2]
    by (simp add: ex_two_steps_rows)
  from a b c d show ?thesis
    by (intro conjI) simp_all
qed

text \<open>
  Claim C4 as stated fails. With one step S, an input I and an output O, and hence no inner
  edge, the only edge that leaves I goes to S, which carries no fill: it is not styled as
  an internal step. And a URI X that is the input of an input row and the output of an
  output row is a node of both clusters.
\<close>

theorem cluster_invariants_counterexample:
  "''w#I'' \<in> set (cluster_nodes (extracted ex_single_step ''w'') ''cluster_inputs'')
   \<and> edges (extracted ex_single_step ''w'') = [(''w#I'', ''w#S''), (''w#S'', ''w#O'')]
   \<and> attrs (extracted ex_single_step ''w'') ''w#S'' ''fillcolor'' = None
   \<and> \<not> internal_step_styled (extracted ex_single_step ''w'') ''w#S''
   \<and> ''w#X'' \<in> set (cluster_nodes (extracted ex_overlap ''w'') ''cluster_inputs'')
   \<and> ''w#X'' \<in> set (cluster_nodes (extracted ex_overlap ''w'') ''cluster_outputs'')"
  by (simp add: cluster_inputs_extracted cluster_outputs_extracted edges_extracted
      attrs_extracted internal_step_styled_def ex_single_step_def ex_overlap_def
      input_es_def output_es_def inner_es_def boundary_delta_def)

section \<open>Steps that only boundary rows mention\<close>

text \<open>
  Claim C9, as the code has it. The step of an input row or of an output row that occurs in
  no inner-edge row, and that is not itself the input of an input row or the output of an
  output row, is a node of the diagram after construction with no attribute of its own (no
  fill colour, no style, no label), under the default node shape \<open>record\<close> of the graph;
  every step of an inner-edge row carries a fill colour, the filled style and a label.
\<close>

theorem implicit_step_nodes:
  "(r \<in> set (get_input_edges rdf root)
    \<and> input_row.step r \<notin> set (inner_nodes (get_inner_edges rdf root))
    \<and> input_row.step r \<notin> input ` set (get_input_edges rdf root)
    \<and> input_row.step r \<notin> output_uri ` set (get_output_edges rdf root) \<longrightarrow>
      input_row.step r \<in> set (nodes (extracted rdf root))
      \<and> attrs (extracted rdf root) (input_row.step r) = Map.empty)
   \<and> (q \<in> set (get_output_edges rdf root)
    \<and> output_row.step q \<notin> set (inner_nodes (get_inner_edges rdf root))
    \<and> output_row.step q \<notin> input ` set (get_input_edges rdf root)
    \<and> output_row.step q \<notin> output_uri ` set (get_output_edges rdf root) \<longrightarrow>
      output_row.step q \<in> set (nodes (extracted rdf root))
      \<and> attrs (extracted rdf root) (output_row.step q) = Map.empty)
   \<and> node_attr (extracted rdf root) ''shape'' = Some ''record''
   \<and> (n \<in> set (inner_nodes (get_inner_edges rdf root)) \<longrightarrow>
      attrs (extracted rdf root) n ''fillcolor'' \<noteq> None
      \<and> attrs (extracted rdf root) n ''style'' = Some ''filled''
      \<and> attrs (extracted rdf root) n ''label'' \<noteq> None)"
  using step_in_nodes(1) [of r rdf root] step_in_nodes(2) [of q rdf root]
    implicit_node_attrs [of "input_row.step r" rdf root]
    implicit_node_attrs [of "output_row.step q" rdf root]
    inner_node_attrs [of n rdf root]
  by (simp add: node_attr_extracted)

theorem implicit_step_nodes_witness:
  "''w#S'' \<in> set (nodes (extracted ex_single_step ''w''))
   \<and> attrs (extracted ex_single_step ''w'') ''w#S'' = Map.empty
   \<and> node_attr (extracted ex_single_step ''w'') ''shape'' = Some ''record''
   \<and> attrs (extracted ex_two_steps ''w'') ''w#S2'' ''fillcolor'' \<noteq> None
   \<and> attrs (extracted ex_two_steps ''w'') ''w#S2'' ''style'' = Some ''filled''
   \<and> attrs (extracted ex_two_steps ''w'') ''w#S2'' ''label'' \<noteq> None"
proof -
  have a: "''w#S'' \<in> set (nodes (extracted ex_single_step ''w''))
      \<and> attrs (extracted ex_single_step ''w'') ''w#S'' = Map.empty"
    using implicit_step_nodes [where r = "\<lparr>input = ''w#I'', step = ''w#S''\<rparr>"
        and rdf = ex_single_step and root = "''w''", THEN conjunct1]
    by (simp add: ex_single_step_rows inner_nodes_def)
  have b: "node_attr (extracted ex_single_step ''w'') ''shape'' = Some ''record''"
    using implicit_step_nodes [where rdf = ex_single_step and root = "''w''",
        THEN conjunct2, THEN conjunct2, THEN conjunct1] .
  have c: "attrs (extracted ex_two_steps ''w'') ''w#S2'' ''fillcolor'' \<noteq> None
      \<and> attrs (extracted ex_two_steps ''w'') ''w#S2'' ''style'' = Some ''filled''
      \<and> attrs (extracted ex_two_steps ''w'') ''w#S2'' ''label'' \<noteq> None"
    using implicit_step_nodes [where n = "''w#S2''" and rdf = ex_two_steps and root = "''w''",
        THEN conjunct2, THEN conjunct2, THEN conjunct2]
    by (simp add: ex_two_steps_rows inner_nodes_def)
  from a b c show ?thesis
    by (intro conjI) simp_all
qed

text \<open>
  Claim C9 as stated fails: the step \<open>w#b\<close> of the input row \<open>(w#a, w#b)\<close> occurs in no
  inner-edge row, but it is the input of the input row \<open>(w#b, w#c)\<close>, so it carries the
  boundary fill, the filled style and a label.
\<close>

theorem implicit_step_nodes_counterexample:
  "\<lparr>input = ''w#a'', step = ''w#b''\<rparr> \<in> set (get_input_edges ex_chain ''w'')
   \<and> ''w#b'' \<notin> set (inner_nodes (get_inner_edges ex_chain ''w''))
   \<and> attrs (extracted ex_chain ''w'') ''w#b'' ''fillcolor'' = Some ''#94DDF4''
   \<and> attrs (extracted ex_chain ''w'') ''w#b'' ''style'' = Some ''filled''
   \<and> attrs (extracted ex_chain ''w'') ''w#b'' ''label'' = Some ''b''"
  by (simp add: attrs_extracted ex_chain_def inner_nodes_def boundary_delta_def
      boundary_attr_def fragment_def agsafeset_label_def)

end
